theory Spec2Isabelle
  imports Complex_Main "HOL-Library.AList"
begin

section \<open>Numbers\<close>

text \<open>
  Python's unbounded \<open>int\<close> is \<open>int\<close>. A Python \<open>float\<close> that holds a price, a cost or a
  ratio is modelled by the real number it stands for: the arithmetic of \<open>api/main.py\<close> on
  such values is read as exact arithmetic, and only the explicit calls of \<open>round\<close> round.
  \<open>round(x, n)\<close> on a float rounds the value of \<open>x\<close> to \<open>n\<close> decimals, a tie going to the
  even neighbour.
\<close>

definition round_half_even :: "real \<Rightarrow> int" where
  "round_half_even x =
     (let f = \<lfloor>x\<rfloor>; d = x - of_int f
      in if d < 1 / 2 then f else if 1 / 2 < d then f + 1 else if even f then f else f + 1)"

definition py_round :: "real \<Rightarrow> nat \<Rightarrow> real" where
  "py_round x n = of_int (round_half_even (x * 10 ^ n)) / 10 ^ n"

section \<open>Exceptions and HTTP errors\<close>

datatype exn = FileNotFoundError | RuntimeError | ZeroDivisionError

text \<open>
  The \<open>detail\<close> of an \<open>HTTPException\<close> is a formatted message; the model keeps which message
  it is and the values formatted into it. \<open>Uncaught\<close> is an exception that leaves the
  endpoint function (the framework answers 500).
\<close>

datatype detail =
    StoreFailure exn
  | AlreadyRegistered string string
  | NotInWatchlist string
  | InvalidStatus string
  | YfinanceUnavailable
  | SaveFailed exn
  | PortfolioMissing
  | NotInPortfolio string
  | SellExceedsHeld int
  | TradeIndexOutOfRange int nat
  | ReportNotFound string
  | ManifestUpdateFailed exn

datatype http_error = HTTPException nat detail | Uncaught exn

section \<open>The portfolio document\<close>

record holding =
  h_code :: string
  h_name :: string
  h_shares :: int
  h_avg_cost :: real
  h_purchase_date :: string
  h_note :: string

record trade =
  t_date :: string
  t_code :: string
  t_name :: string
  t_action :: string
  t_shares :: int
  t_price :: real
  t_profit :: "real option"

record portfolio =
  holdings :: "holding list"
  trade_history :: "trade list"

record BuyRequest =
  b_code :: string
  b_name :: string
  b_shares :: int
  b_price :: real
  b_note :: string

record SellRequest =
  s_code :: string
  s_shares :: int
  s_price :: real

section \<open>The watchlist and the manifest documents\<close>

text \<open>
  A key that a watchlist entry may lack (\<open>status\<close>, \<open>per\<close>, \<open>updated_at\<close>) is an option,
  as \<open>entry.get\<close> reads it; a missing \<open>per_history\<close> is the empty list, as
  \<open>entry.get("per_history", [])\<close> reads it.
\<close>

record per_point =
  p_date :: string
  p_per :: "real option"
  p_source :: string

record watch_entry =
  w_code :: string
  w_name :: string
  w_added_date :: string
  w_note :: string
  w_kabumart_rank :: string
  w_status :: "string option"
  w_per :: "real option"
  w_per_history :: "per_point list"
  w_updated_at :: "string option"

record watchlist_document =
  watchlist :: "watch_entry list"

record WatchlistAddRequest =
  a_code :: string
  a_name :: string
  a_note :: string
  a_kabumart_rank :: string
  a_per :: "real option"

record WatchlistStatusRequest =
  u_code :: string
  u_status :: string

record manifest_entry =
  m_code :: "string option"
  m_name :: string

record manifest =
  stocks :: "manifest_entry list"

record per_result =
  r_code :: string
  r_name :: string
  r_old_per :: "real option"
  r_new_per :: "real option"

record per_error =
  e_code :: string
  e_name :: string

datatype response =
    WatchAdded nat
  | WatchDeleted nat
  | StatusUpdated string string
  | PerRefreshed "per_result list" "per_error list"
  | Bought trade
  | Sold trade
  | PortfolioReset
  | HoldingDeleted string
  | TradeDeleted trade
  | ReportDeleted string

section \<open>The document store and the market data provider\<close>

text \<open>
  The remote repository holds the watchlist, the portfolio and the manifest document
  (each may be absent) and the analysis documents, of which only the paths matter here.
  The environment says for each path whether the GET, the PUT or the DELETE of the
  contents API fails (a missing token fails the GET of every path), gives the date and
  the time stamp that \<open>datetime.now()\<close> formats, and answers for the market data provider:
  \<open>ticker_info code\<close> is \<open>None\<close> when reading \<open>ticker.info\<close> raises. The \<open>updated_at\<close>
  stamp that \<open>github_update_json\<close> writes into every document is left out.
\<close>

record store =
  watchlist_doc :: "watchlist_document option"
  portfolio_doc :: "portfolio option"
  manifest_doc :: "manifest option"
  reports :: "string set"

record ticker_info_PE =
  forwardPE :: "real option"
  trailingPE :: "real option"

record env =
  get_fails :: "string \<Rightarrow> bool"
  put_fails :: "string \<Rightarrow> bool"
  delete_fails :: "string \<Rightarrow> bool"
  today :: string
  now :: string
  YFINANCE_AVAILABLE :: bool
  ticker_info :: "string \<Rightarrow> ticker_info_PE option"

definition GH_WATCHLIST_PATH :: string where
  "GH_WATCHLIST_PATH = ''watchlist/data/watchlist.json''"

definition GH_PORTFOLIO_PATH :: string where
  "GH_PORTFOLIO_PATH = ''portfolio-health/data/portfolio.json''"

definition GH_MANIFEST_PATH :: string where
  "GH_MANIFEST_PATH = ''webapp/manifest.json''"

definition GH_STOCKS_DIR :: string where
  "GH_STOCKS_DIR = ''webapp/data/stocks''"

definition github_fetch_json :: "env \<Rightarrow> string \<Rightarrow> 'a option \<Rightarrow> exn + 'a" where
  "github_fetch_json e rel_path doc =
     (if get_fails e rel_path then Inl RuntimeError
      else case doc of None \<Rightarrow> Inl FileNotFoundError | Some d \<Rightarrow> Inr d)"

definition github_update_json :: "env \<Rightarrow> string \<Rightarrow> exn + unit" where
  "github_update_json e rel_path =
     (if get_fails e rel_path then Inl RuntimeError
      else if put_fails e rel_path then Inl RuntimeError
      else Inr ())"

definition github_delete_file :: "env \<Rightarrow> string \<Rightarrow> bool \<Rightarrow> exn + unit" where
  "github_delete_file e rel_path exists =
     (if get_fails e rel_path then Inl RuntimeError
      else if \<not> exists then Inl FileNotFoundError
      else if delete_fails e rel_path then Inl RuntimeError
      else Inr ())"

text \<open>
  The write step of a use-case: \<open>github_update_json\<close> inside \<open>try\<close>, a \<open>RuntimeError\<close>
  answered with status 500, the document replaced in the store otherwise.
\<close>

definition put_portfolio ::
  "env \<Rightarrow> store \<Rightarrow> portfolio \<Rightarrow> response \<Rightarrow> (http_error + response) \<times> store" where
  "put_portfolio e s data resp =
     (case github_update_json e GH_PORTFOLIO_PATH of
        Inl ex \<Rightarrow> (Inl (HTTPException 500 (StoreFailure ex)), s)
      | Inr _ \<Rightarrow> (Inr resp, s\<lparr>portfolio_doc := Some data\<rparr>))"

section \<open>Recording a buy and a sell\<close>

fun update_first :: "('a \<Rightarrow> bool) \<Rightarrow> ('a \<Rightarrow> 'a) \<Rightarrow> 'a list \<Rightarrow> 'a list" where
  "update_first P f [] = []"
| "update_first P f (x # xs) = (if P x then f x # xs else x # update_first P f xs)"

definition record_buy :: "env \<Rightarrow> store \<Rightarrow> BuyRequest \<Rightarrow> portfolio \<Rightarrow> (http_error + response) \<times> store" where
  "record_buy e s req data =
     (let trade = \<lparr>t_date = today e, t_code = b_code req, t_name = b_name req,
                   t_action = ''buy'', t_shares = b_shares req, t_price = b_price req,
                   t_profit = None\<rparr>;
          history = trade_history data @ [trade]
      in case find (\<lambda>h. h_code h = b_code req) (holdings data) of
           Some existing \<Rightarrow>
             (let total_cost = h_avg_cost existing * of_int (h_shares existing)
                                + b_price req * of_int (b_shares req);
                  shares = h_shares existing + b_shares req
              in if shares = 0 then (Inl (Uncaught ZeroDivisionError), s)
                 else put_portfolio e s
                        \<lparr>holdings =
                           update_first (\<lambda>h. h_code h = b_code req)
                             (\<lambda>h. h\<lparr>h_shares := shares,
                                    h_avg_cost := py_round (total_cost / of_int shares) 2\<rparr>)
                             (holdings data),
                         trade_history = history\<rparr>
                        (Bought trade))
         | None \<Rightarrow>
             put_portfolio e s
               \<lparr>holdings = holdings data @
                  [\<lparr>h_code = b_code req, h_name = b_name req,
                    h_shares = b_shares req, h_avg_cost = b_price req,
                    h_purchase_date = today e, h_note = b_note req\<rparr>],
                trade_history = history\<rparr>
               (Bought trade))"

definition buy_stock :: "env \<Rightarrow> store \<Rightarrow> BuyRequest \<Rightarrow> (http_error + response) \<times> store" where
  "buy_stock e s req =
     (case github_fetch_json e GH_PORTFOLIO_PATH (portfolio_doc s) of
        Inl ex \<Rightarrow>
          if ex = FileNotFoundError
          then record_buy e s req \<lparr>holdings = [], trade_history = []\<rparr>
          else (Inl (HTTPException 500 (StoreFailure ex)), s)
      | Inr data \<Rightarrow> record_buy e s req data)"

definition record_sell ::
  "env \<Rightarrow> store \<Rightarrow> SellRequest \<Rightarrow> portfolio \<Rightarrow> holding \<Rightarrow> (http_error + response) \<times> store" where
  "record_sell e s req data existing =
     (let profit = py_round ((s_price req - h_avg_cost existing) * of_int (s_shares req)) 0;
          trade = \<lparr>t_date = today e, t_code = s_code req, t_name = h_name existing,
                   t_action = ''sell'', t_shares = s_shares req,
                   t_price = s_price req, t_profit = Some profit\<rparr>;
          history = trade_history data @ [trade];
          shares = h_shares existing - s_shares req;
          hs = update_first (\<lambda>h. h_code h = s_code req)
                 (\<lambda>h. h\<lparr>h_shares := shares\<rparr>) (holdings data)
      in put_portfolio e s
           \<lparr>holdings = (if shares = 0
                        then filter (\<lambda>h. h_code h \<noteq> s_code req) hs else hs),
            trade_history = history\<rparr>
           (Sold trade))"

definition sell_stock :: "env \<Rightarrow> store \<Rightarrow> SellRequest \<Rightarrow> (http_error + response) \<times> store" where
  "sell_stock e s req =
     (case github_fetch_json e GH_PORTFOLIO_PATH (portfolio_doc s) of
        Inl ex \<Rightarrow>
          if ex = FileNotFoundError then (Inl (HTTPException 404 PortfolioMissing), s)
          else (Inl (HTTPException 500 (StoreFailure ex)), s)
      | Inr data \<Rightarrow>
          (case find (\<lambda>h. h_code h = s_code req) (holdings data) of
             None \<Rightarrow> (Inl (HTTPException 404 (NotInPortfolio (s_code req))), s)
           | Some existing \<Rightarrow>
               if s_shares req > h_shares existing
               then (Inl (HTTPException 400 (SellExceedsHeld (h_shares existing))), s)
               else record_sell e s req data existing))"

section \<open>Deleting a trade and rebuilding the holdings\<close>

text \<open>
  The rebuild loop of \<open>delete_trade\<close> keeps a \<open>dict\<close> from code to holding. A Python dict
  keeps insertion order, and \<open>list(holdings.values())\<close> reads it in that order, so the
  dict is an association list: an assignment to a present key keeps its place, a new key
  goes to the end, \<open>del\<close> removes the entry.
\<close>

definition rebuild_step ::
  "(string \<times> holding) list \<Rightarrow> trade \<Rightarrow> exn + (string \<times> holding) list" where
  "rebuild_step hs t =
     (let code = t_code t in
      if t_action t = ''buy'' then
        (case map_of hs code of
           Some h \<Rightarrow>
             (let total_cost = h_avg_cost h * of_int (h_shares h)
                                + t_price t * of_int (t_shares t);
                  shares = h_shares h + t_shares t
              in if shares = 0 then Inl ZeroDivisionError
                 else Inr (AList.update code
                        (h\<lparr>h_shares := shares,
                           h_avg_cost := py_round (total_cost / of_int shares) 2\<rparr>) hs))
         | None \<Rightarrow>
             Inr (AList.update code
                    \<lparr>h_code = code, h_name = t_name t, h_shares = t_shares t,
                     h_avg_cost = t_price t, h_purchase_date = t_date t, h_note = ''''\<rparr> hs))
      else if t_action t = ''sell'' then
        (case map_of hs code of
           Some h \<Rightarrow>
             (let shares = h_shares h - t_shares t
              in if shares \<le> 0 then Inr (AList.delete code hs)
                 else Inr (AList.update code (h\<lparr>h_shares := shares\<rparr>) hs))
         | None \<Rightarrow> Inr hs)
      else Inr hs)"

fun rebuild :: "(string \<times> holding) list \<Rightarrow> trade list \<Rightarrow> exn + (string \<times> holding) list" where
  "rebuild hs [] = Inr hs"
| "rebuild hs (t # ts) =
     (case rebuild_step hs t of Inl ex \<Rightarrow> Inl ex | Inr hs' \<Rightarrow> rebuild hs' ts)"

definition pop :: "nat \<Rightarrow> 'a list \<Rightarrow> 'a list" where
  "pop i xs = take i xs @ drop (Suc i) xs"

definition delete_trade :: "env \<Rightarrow> store \<Rightarrow> int \<Rightarrow> (http_error + response) \<times> store" where
  "delete_trade e s index =
     (case github_fetch_json e GH_PORTFOLIO_PATH (portfolio_doc s) of
        Inl ex \<Rightarrow>
          if ex = FileNotFoundError then (Inl (HTTPException 404 PortfolioMissing), s)
          else (Inl (HTTPException 500 (StoreFailure ex)), s)
      | Inr data \<Rightarrow>
          (let history = trade_history data in
           if index < 0 \<or> index \<ge> int (length history)
           then (Inl (HTTPException 404 (TradeIndexOutOfRange index (length history))), s)
           else
             (let deleted_trade = history ! nat index;
                  history' = pop (nat index) history
              in case rebuild [] history' of
                   Inl ex \<Rightarrow> (Inl (Uncaught ex), s)
                 | Inr hs \<Rightarrow>
                     put_portfolio e s
                       \<lparr>holdings = map snd hs, trade_history = history'\<rparr>
                       (TradeDeleted deleted_trade))))"

section \<open>The ledger reconstruction of the specification\<close>



section \<open>Resetting the portfolio and deleting a holding\<close>

text \<open>
  \<open>str.upper\<close> on the letters of a stock code; characters outside \<open>a\<close> to \<open>z\<close> are kept.
\<close>

definition upper_char :: "char \<Rightarrow> char" where
  "upper_char c =
     (let n = (of_char c :: nat) in if 97 \<le> n \<and> n \<le> 122 then char_of (n - 32) else c)"

definition upper :: "string \<Rightarrow> string" where
  "upper cs = map upper_char cs"

definition reset_portfolio :: "env \<Rightarrow> store \<Rightarrow> (http_error + response) \<times> store" where
  "reset_portfolio e s =
     put_portfolio e s \<lparr>holdings = [], trade_history = []\<rparr> PortfolioReset"

definition delete_holding :: "env \<Rightarrow> store \<Rightarrow> string \<Rightarrow> (http_error + response) \<times> store" where
  "delete_holding e s code =
     (case github_fetch_json e GH_PORTFOLIO_PATH (portfolio_doc s) of
        Inl ex \<Rightarrow>
          if ex = FileNotFoundError then (Inl (HTTPException 404 PortfolioMissing), s)
          else (Inl (HTTPException 500 (StoreFailure ex)), s)
      | Inr data \<Rightarrow>
          (let code_upper = upper code in
           case find (\<lambda>h. h_code h = code_upper) (holdings data) of
             None \<Rightarrow> (Inl (HTTPException 404 (NotInPortfolio code_upper)), s)
           | Some existing \<Rightarrow>
               put_portfolio e s
                 (data\<lparr>holdings := filter (\<lambda>h. h_code h \<noteq> code_upper) (holdings data)\<rparr>)
                 (HoldingDeleted code_upper)))"

section \<open>The watchlist use-cases\<close>

definition put_watchlist ::
  "env \<Rightarrow> store \<Rightarrow> watchlist_document \<Rightarrow> response \<Rightarrow> (http_error + response) \<times> store" where
  "put_watchlist e s data resp =
     (case github_update_json e GH_WATCHLIST_PATH of
        Inl ex \<Rightarrow> (Inl (HTTPException 500 (StoreFailure ex)), s)
      | Inr _ \<Rightarrow> (Inr resp, s\<lparr>watchlist_doc := Some data\<rparr>))"

definition append_entry ::
  "env \<Rightarrow> store \<Rightarrow> WatchlistAddRequest \<Rightarrow> watchlist_document \<Rightarrow> (http_error + response) \<times> store" where
  "append_entry e s req data =
     (if \<exists>item \<in> set (watchlist data). w_code item = a_code req
      then (Inl (HTTPException 409 (AlreadyRegistered (a_name req) (a_code req))), s)
      else
        (let entry = \<lparr>w_code = a_code req, w_name = a_name req, w_added_date = today e,
                      w_note = a_note req, w_kabumart_rank = a_kabumart_rank req,
                      w_status = Some ''archived'', w_per = a_per req,
                      w_per_history =
                        (case a_per req of
                           None \<Rightarrow> []
                         | Some p \<Rightarrow> [\<lparr>p_date = today e, p_per = Some p,
                                       p_source = ''analysis''\<rparr>]),
                      w_updated_at = None\<rparr>;
             data' = data\<lparr>watchlist := watchlist data @ [entry]\<rparr>
         in put_watchlist e s data' (WatchAdded (length (watchlist data')))))"

definition add_watchlist ::
  "env \<Rightarrow> store \<Rightarrow> WatchlistAddRequest \<Rightarrow> (http_error + response) \<times> store" where
  "add_watchlist e s req =
     (case github_fetch_json e GH_WATCHLIST_PATH (watchlist_doc s) of
        Inl ex \<Rightarrow>
          if ex = FileNotFoundError then append_entry e s req \<lparr>watchlist = []\<rparr>
          else (Inl (HTTPException 500 (StoreFailure ex)), s)
      | Inr data \<Rightarrow> append_entry e s req data)"

definition delete_watchlist :: "env \<Rightarrow> store \<Rightarrow> string \<Rightarrow> (http_error + response) \<times> store" where
  "delete_watchlist e s code =
     (case github_fetch_json e GH_WATCHLIST_PATH (watchlist_doc s) of
        Inl ex \<Rightarrow> (Inl (HTTPException 500 (StoreFailure ex)), s)
      | Inr data \<Rightarrow>
          (let before = length (watchlist data);
               data' = data\<lparr>watchlist := filter (\<lambda>x. w_code x \<noteq> code) (watchlist data)\<rparr>
           in if length (watchlist data') = before
              then (Inl (HTTPException 404 (NotInWatchlist code)), s)
              else put_watchlist e s data' (WatchDeleted (length (watchlist data')))))"

definition VALID_STATUSES :: "string list" where
  "VALID_STATUSES = [''watching'', ''interested'', ''archived'']"

definition update_watchlist_status ::
  "env \<Rightarrow> store \<Rightarrow> WatchlistStatusRequest \<Rightarrow> (http_error + response) \<times> store" where
  "update_watchlist_status e s req =
     (if u_status req \<notin> set VALID_STATUSES
      then (Inl (HTTPException 400 (InvalidStatus (u_status req))), s)
      else case github_fetch_json e GH_WATCHLIST_PATH (watchlist_doc s) of
        Inl ex \<Rightarrow> (Inl (HTTPException 500 (StoreFailure ex)), s)
      | Inr data \<Rightarrow>
          (case find (\<lambda>x. w_code x = u_code req) (watchlist data) of
             None \<Rightarrow> (Inl (HTTPException 404 (NotInWatchlist (u_code req))), s)
           | Some entry \<Rightarrow>
               put_watchlist e s
                 (data\<lparr>watchlist :=
                    update_first (\<lambda>x. w_code x = u_code req)
                      (\<lambda>x. x\<lparr>w_status := Some (u_status req), w_updated_at := Some (now e)\<rparr>)
                      (watchlist data)\<rparr>)
                 (StatusUpdated (u_code req) (u_status req))))"

text \<open>
  The loop of the bulk PER refresh. An archived entry is skipped; for any other entry the
  provider is asked, and either the entry is updated and a result recorded, or the
  failure is recorded. The three lists are the entries after the loop, \<open>results\<close> and
  \<open>errors\<close>.
\<close>

definition refresh_entry :: "env \<Rightarrow> ticker_info_PE \<Rightarrow> watch_entry \<Rightarrow> watch_entry \<times> per_result" where
  "refresh_entry e info entry =
     (let per = (case forwardPE info of None \<Rightarrow> trailingPE info | Some p \<Rightarrow> Some p);
          per = map_option (\<lambda>p. py_round p 1) per;
          old_per = w_per entry;
          history = w_per_history entry;
          same_day = filter (\<lambda>h. p_date h = today e) history;
          history' =
            (if same_day \<noteq> []
             then update_first (\<lambda>h. p_date h = today e)
                    (\<lambda>h. h\<lparr>p_per := per, p_source := ''yfinance''\<rparr>) history
             else history @ [\<lparr>p_date = today e, p_per = per, p_source = ''yfinance''\<rparr>])
      in (entry\<lparr>w_per := per, w_per_history := history'\<rparr>,
          \<lparr>r_code = w_code entry, r_name = w_name entry, r_old_per = old_per,
           r_new_per = per\<rparr>))"

fun refresh_entries ::
  "env \<Rightarrow> watch_entry list \<Rightarrow> watch_entry list \<times> per_result list \<times> per_error list" where
  "refresh_entries e [] = ([], [], [])"
| "refresh_entries e (entry # rest) =
     (case refresh_entries e rest of
        (rest', results, errors) \<Rightarrow>
          if w_status entry = Some ''archived'' then (entry # rest', results, errors)
          else case ticker_info e (w_code entry) of
                 None \<Rightarrow>
                   (entry # rest', results,
                    \<lparr>e_code = w_code entry, e_name = w_name entry\<rparr> # errors)
               | Some info \<Rightarrow>
                   (case refresh_entry e info entry of
                      (entry', result) \<Rightarrow> (entry' # rest', result # results, errors)))"

definition update_watchlist_per :: "env \<Rightarrow> store \<Rightarrow> (http_error + response) \<times> store" where
  "update_watchlist_per e s =
     (if \<not> YFINANCE_AVAILABLE e then (Inl (HTTPException 503 YfinanceUnavailable), s)
      else case github_fetch_json e GH_WATCHLIST_PATH (watchlist_doc s) of
        Inl ex \<Rightarrow>
          if ex = FileNotFoundError then (Inr (PerRefreshed [] []), s)
          else (Inl (HTTPException 500 (StoreFailure ex)), s)
      | Inr data \<Rightarrow>
          (case refresh_entries e (watchlist data) of
             (entries, results, errors) \<Rightarrow>
               if results \<noteq> [] then
                 (case github_update_json e GH_WATCHLIST_PATH of
                    Inl ex \<Rightarrow> (Inl (HTTPException 500 (SaveFailed ex)), s)
                  | Inr _ \<Rightarrow>
                      (Inr (PerRefreshed results errors),
                       s\<lparr>watchlist_doc := Some (data\<lparr>watchlist := entries\<rparr>)\<rparr>))
               else (Inr (PerRefreshed results errors), s)))"

section \<open>Deleting an analysis report\<close>

definition report_path :: "string \<Rightarrow> string" where
  "report_path code = GH_STOCKS_DIR @ ''/'' @ upper code @ ''.json''"

definition delete_report :: "env \<Rightarrow> store \<Rightarrow> string \<Rightarrow> (http_error + response) \<times> store" where
  "delete_report e s code =
     (let rel_path = report_path code in
      case github_delete_file e rel_path (rel_path \<in> reports s) of
        Inl ex \<Rightarrow>
          if ex = FileNotFoundError then (Inl (HTTPException 404 (ReportNotFound code)), s)
          else (Inl (HTTPException 500 (StoreFailure ex)), s)
      | Inr _ \<Rightarrow>
          (let s1 = s\<lparr>reports := reports s - {rel_path}\<rparr> in
           case github_fetch_json e GH_MANIFEST_PATH (manifest_doc s1) of
             Inl ex \<Rightarrow> (Inl (HTTPException 500 (ManifestUpdateFailed ex)), s1)
           | Inr manifest \<Rightarrow>
               (let manifest' =
                      manifest\<lparr>stocks := filter (\<lambda>x. m_code x \<noteq> Some (upper code))
                                            (stocks manifest)\<rparr>
                in case github_update_json e GH_MANIFEST_PATH of
                     Inl ex \<Rightarrow> (Inl (HTTPException 500 (ManifestUpdateFailed ex)), s1)
                   | Inr _ \<Rightarrow>
                       (Inr (ReportDeleted code), s1\<lparr>manifest_doc := Some manifest'\<rparr>))))"

section \<open>The mutating endpoints\<close>

text \<open>
  The routes of the application that write to the store, each with its request, and the
  endpoint function that the framework calls for it.
\<close>

datatype request =
    AddWatchlist WatchlistAddRequest
  | DeleteWatchlist string
  | UpdateWatchlistStatus WatchlistStatusRequest
  | UpdateWatchlistPer
  | BuyStock BuyRequest
  | SellStock SellRequest
  | ResetPortfolio
  | DeleteHolding string
  | DeleteTrade int
  | DeleteReport string

fun handle :: "env \<Rightarrow> store \<Rightarrow> request \<Rightarrow> (http_error + response) \<times> store" where
  "handle e s (AddWatchlist req) = add_watchlist e s req"
| "handle e s (DeleteWatchlist code) = delete_watchlist e s code"
| "handle e s (UpdateWatchlistStatus req) = update_watchlist_status e s req"
| "handle e s UpdateWatchlistPer = update_watchlist_per e s"
| "handle e s (BuyStock req) = buy_stock e s req"
| "handle e s (SellStock req) = sell_stock e s req"
| "handle e s ResetPortfolio = reset_portfolio e s"
| "handle e s (DeleteHolding code) = delete_holding e s code"
| "handle e s (DeleteTrade index) = delete_trade e s index"
| "handle e s (DeleteReport code) = delete_report e s code"

section \<open>Values of a float series\<close>

text \<open>
  The indicator code divides series of floats, where a division by zero is no error but
  an infinity or a NaN. A float there is a real number, an infinity or NaN; the
  operations follow IEEE 754 on the special values and are exact on the others. The sign
  of a zero is not kept: a positive number divided by a zero is \<open>PInf\<close> here, where the
  float may be \<open>NInf\<close> for a negative zero.
\<close>

datatype fl = Fin real | PInf | NInf | NaN

fun fl_neg :: "fl \<Rightarrow> fl" where
  "fl_neg (Fin x) = Fin (- x)"
| "fl_neg PInf = NInf"
| "fl_neg NInf = PInf"
| "fl_neg NaN = NaN"

fun fl_add :: "fl \<Rightarrow> fl \<Rightarrow> fl" where
  "fl_add NaN _ = NaN"
| "fl_add _ NaN = NaN"
| "fl_add (Fin x) (Fin y) = Fin (x + y)"
| "fl_add PInf NInf = NaN"
| "fl_add NInf PInf = NaN"
| "fl_add PInf _ = PInf"
| "fl_add NInf _ = NInf"
| "fl_add (Fin x) PInf = PInf"
| "fl_add (Fin x) NInf = NInf"

definition fl_sub :: "fl \<Rightarrow> fl \<Rightarrow> fl" where
  "fl_sub a b = fl_add a (fl_neg b)"

fun fl_div :: "fl \<Rightarrow> fl \<Rightarrow> fl" where
  "fl_div NaN _ = NaN"
| "fl_div _ NaN = NaN"
| "fl_div (Fin x) (Fin y) =
     (if y \<noteq> 0 then Fin (x / y) else if x = 0 then NaN else if 0 < x then PInf else NInf)"
| "fl_div (Fin x) PInf = Fin 0"
| "fl_div (Fin x) NInf = Fin 0"
| "fl_div PInf (Fin y) = (if 0 \<le> y then PInf else NInf)"
| "fl_div NInf (Fin y) = (if 0 \<le> y then NInf else PInf)"
| "fl_div PInf _ = NaN"
| "fl_div NInf _ = NaN"

fun fl_le :: "fl \<Rightarrow> real \<Rightarrow> bool" where
  "fl_le (Fin x) b = (x \<le> b)"
| "fl_le NInf b = True"
| "fl_le PInf b = False"
| "fl_le NaN b = False"

fun fl_round :: "fl \<Rightarrow> nat \<Rightarrow> fl" where
  "fl_round (Fin x) n = Fin (py_round x n)"
| "fl_round v n = v"

fun is_Fin :: "fl \<Rightarrow> bool" where
  "is_Fin (Fin x) = True"
| "is_Fin _ = False"

fun fin_value :: "fl \<Rightarrow> real" where
  "fin_value (Fin x) = x"
| "fin_value _ = 0"

section \<open>The relative strength index of \<open>get_full_data\<close>\<close>

text \<open>
  The series operations of the data-frame library that the RSI lines use.
  \<open>diff\<close> puts NaN first and then the day-over-day differences. \<open>clip\<close> bounds the values
  and keeps NaN. \<open>rolling(w).mean()\<close> gives at each day the mean of the \<open>w\<close> values up to
  that day, and NaN where fewer than \<open>w\<close> values that are not NaN stand in the window.
  The closing prices themselves are finite numbers.
\<close>

fun diff :: "real list \<Rightarrow> fl list" where
  "diff [] = []"
| "diff (x # xs) = NaN # map (\<lambda>(a, b). Fin (b - a)) (zip (x # xs) xs)"

fun clip_lower :: "real \<Rightarrow> fl \<Rightarrow> fl" where
  "clip_lower lo (Fin x) = Fin (max lo x)"
| "clip_lower lo v = v"

fun clip_upper :: "real \<Rightarrow> fl \<Rightarrow> fl" where
  "clip_upper hi (Fin x) = Fin (min hi x)"
| "clip_upper hi v = v"

definition window_mean :: "nat \<Rightarrow> fl list \<Rightarrow> fl" where
  "window_mean w xs =
     (let win = drop (length xs - w) xs
      in if length xs < w \<or> \<not> list_all is_Fin win then NaN
         else Fin (sum_list (map fin_value win) / real w))"

definition rolling_mean :: "nat \<Rightarrow> fl list \<Rightarrow> fl list" where
  "rolling_mean w xs = map (\<lambda>i. window_mean w (take (Suc i) xs)) [0..<length xs]"

text \<open>
  The RSI of \<open>get_full_data\<close> from the closing prices of the history: \<open>None\<close> is Python's
  \<open>None\<close>, \<open>Some v\<close> the float \<open>v\<close>.
\<close>

definition get_full_data_rsi :: "real list \<Rightarrow> fl option" where
  "get_full_data_rsi closes =
     (if closes \<noteq> [] \<and> length closes \<ge> 14 then
        (let delta = diff closes;
             gain = rolling_mean 14 (map (clip_lower 0) delta);
             loss = rolling_mean 14 (map (\<lambda>d. fl_neg (clip_upper 0 d)) delta);
             rs = map (\<lambda>(g, l). fl_div g l) (zip gain loss);
             rsi_series = map (\<lambda>r. fl_sub (Fin 100) (fl_div (Fin 100) (fl_add (Fin 1) r))) rs
         in if rsi_series \<noteq> [] then Some (fl_round (last rsi_series) 1) else None)
      else None)"

text \<open>The RSI as a function of the relative strength, as \<open>get_full_data\<close> computes it.\<close>

definition rsi_of_rs :: "fl \<Rightarrow> fl" where
  "rsi_of_rs r = fl_sub (Fin 100) (fl_div (Fin 100) (fl_add (Fin 1) r))"

section \<open>The health alert classifier\<close>

text \<open>
  The snapshot that \<open>health_alert\<close> reads: three dictionaries, each of which may be
  missing, and in each of them fields that may be missing or \<open>None\<close>. The result is the
  \<open>level\<close> of the alert; its \<open>label\<close> and \<open>reason\<close> are fixed texts that go with the level.
\<close>

record technical =
  rsi :: "fl option"
  sma50 :: "real option"
  sma200 :: "real option"
  golden_cross :: "bool option"
  death_cross :: "bool option"

record fundamentals =
  roe :: "real option"
  operating_margin :: "real option"
  revenue_growth :: "real option"

record price =
  current :: "real option"
  high_52w :: "real option"
  low_52w :: "real option"

record snapshot =
  s_technical :: "technical option"
  s_fundamentals :: "fundamentals option"
  s_price :: "price option"

definition dict_get :: "'d option \<Rightarrow> ('d \<Rightarrow> 'v option) \<Rightarrow> 'v option" where
  "dict_get d field = (case d of None \<Rightarrow> None | Some r \<Rightarrow> field r)"

text \<open>Truth of a float or \<open>None\<close> in a condition: \<open>None\<close> and zero are false.\<close>

definition truthy :: "real option \<Rightarrow> bool" where
  "truthy v = (case v of None \<Rightarrow> False | Some x \<Rightarrow> x \<noteq> 0)"

definition fund_bad :: "snapshot \<Rightarrow> nat" where
  "fund_bad data =
     (let roe = dict_get (s_fundamentals data) roe;
          rev_growth = dict_get (s_fundamentals data) revenue_growth;
          op_margin = dict_get (s_fundamentals data) operating_margin
      in sum_list (map of_bool
           [roe \<noteq> None \<and> the roe < 0,
            rev_growth \<noteq> None \<and> the rev_growth < - 0.1,
            op_margin \<noteq> None \<and> the op_margin < 0]))"

definition sma_gap_pct :: "snapshot \<Rightarrow> real option" where
  "sma_gap_pct data =
     (let sma50 = dict_get (s_technical data) sma50;
          sma200 = dict_get (s_technical data) sma200
      in if truthy sma50 \<and> truthy sma200
         then Some (\<bar>the sma50 - the sma200\<bar> / the sma200 * 100)
         else None)"

definition health_alert :: "snapshot \<Rightarrow> string" where
  "health_alert data =
     (let rsi = dict_get (s_technical data) rsi;
          death_cross = dict_get (s_technical data) death_cross;
          sma50 = dict_get (s_technical data) sma50;
          current = dict_get (s_price data) current
      in if death_cross = Some True \<and> fund_bad data \<ge> 2 then ''red''
         else if sma_gap_pct data \<noteq> None \<and> the (sma_gap_pct data) \<le> 5 \<and> fund_bad data \<ge> 1
           then ''orange''
         else if (rsi \<noteq> None \<and> fl_le (the rsi) 30)
                 \<or> (truthy sma50 \<and> truthy current \<and> the current < the sma50)
           then ''yellow''
         else ''green'')"

section \<open>Invariant of the rebuilt holdings\<close>


section \<open>Severity of a level and snapshots with fields removed\<close>

text \<open>
  The levels in their order of severity, and the relation between two snapshots that
  the first is the second with some of the fields read by the classifier missing. The
  three conditions of the classifier are named so that they can be compared one by one.
\<close>

definition severity :: "string \<Rightarrow> nat" where
  "severity level =
     (if level = ''red'' then 3 else if level = ''orange'' then 2
      else if level = ''yellow'' then 1 else 0)"

definition missing_or_same :: "'v option \<Rightarrow> 'v option \<Rightarrow> bool" where
  "missing_or_same v' v = (v' = None \<or> v' = v)"

definition fields_removed :: "snapshot \<Rightarrow> snapshot \<Rightarrow> bool" where
  "fields_removed data' data =
     (missing_or_same (dict_get (s_technical data') rsi) (dict_get (s_technical data) rsi)
      \<and> missing_or_same (dict_get (s_technical data') death_cross)
            (dict_get (s_technical data) death_cross)
      \<and> missing_or_same (dict_get (s_technical data') sma50) (dict_get (s_technical data) sma50)
      \<and> missing_or_same (dict_get (s_technical data') sma200) (dict_get (s_technical data) sma200)
      \<and> missing_or_same (dict_get (s_price data') current) (dict_get (s_price data) current)
      \<and> missing_or_same (dict_get (s_fundamentals data') roe) (dict_get (s_fundamentals data) roe)
      \<and> missing_or_same (dict_get (s_fundamentals data') revenue_growth)
            (dict_get (s_fundamentals data) revenue_growth)
      \<and> missing_or_same (dict_get (s_fundamentals data') operating_margin)
            (dict_get (s_fundamentals data) operating_margin))"

definition red_cond :: "snapshot \<Rightarrow> bool" where
  "red_cond d = (dict_get (s_technical d) death_cross = Some True \<and> fund_bad d \<ge> 2)"

definition orange_cond :: "snapshot \<Rightarrow> bool" where
  "orange_cond d = (sma_gap_pct d \<noteq> None \<and> the (sma_gap_pct d) \<le> 5 \<and> fund_bad d \<ge> 1)"

definition yellow_cond :: "snapshot \<Rightarrow> bool" where
  "yellow_cond d = ((dict_get (s_technical d) rsi \<noteq> None \<and> fl_le (the (dict_get (s_technical d) rsi)) 30)
                 \<or> (truthy (dict_get (s_technical d) sma50) \<and> truthy (dict_get (s_price d) current)
                     \<and> the (dict_get (s_price d) current) < the (dict_get (s_technical d) sma50)))"

section \<open>Example data\<close>

definition example_env :: env where
  "example_env =
     \<lparr>get_fails = (\<lambda>p. False), put_fails = (\<lambda>p. False), delete_fails = (\<lambda>p. False),
      today = ''2025-01-10'', now = ''2025-01-10T09:00:00'', YFINANCE_AVAILABLE = True,
      ticker_info = (\<lambda>c. None)\<rparr>"

definition example_history :: "trade list" where
  "example_history =
     [\<lparr>t_date = ''2025-01-06'', t_code = ''7203'', t_name = ''Toyota'', t_action = ''buy'',
        t_shares = 100, t_price = 1000, t_profit = None\<rparr>,
      \<lparr>t_date = ''2025-01-07'', t_code = ''7203'', t_name = ''Toyota'', t_action = ''buy'',
        t_shares = 50, t_price = 1300, t_profit = None\<rparr>,
      \<lparr>t_date = ''2025-01-07'', t_code = ''6758'', t_name = ''Sony'', t_action = ''buy'',
        t_shares = 10, t_price = 500, t_profit = None\<rparr>,
      \<lparr>t_date = ''2025-01-08'', t_code = ''7203'', t_name = ''Toyota'', t_action = ''sell'',
        t_shares = 30, t_price = 1200, t_profit = Some 3000\<rparr>,
      \<lparr>t_date = ''2025-01-09'', t_code = ''6758'', t_name = ''Sony'', t_action = ''sell'',
        t_shares = 10, t_price = 600, t_profit = Some 1000\<rparr>]"



definition example_holding :: holding where
  "example_holding =
     \<lparr>h_code = ''7203'', h_name = ''Toyota'', h_shares = 100, h_avg_cost = 1000,
      h_purchase_date = ''2025-01-06'', h_note = ''''\<rparr>"

definition example_portfolio :: portfolio where
  "example_portfolio = \<lparr>holdings = [example_holding], trade_history = take 1 example_history\<rparr>"

definition example_store_held :: store where
  "example_store_held =
     \<lparr>watchlist_doc = None, portfolio_doc = Some example_portfolio,
      manifest_doc = None, reports = {}\<rparr>"

definition example_buy :: BuyRequest where
  "example_buy =
     \<lparr>b_code = ''7203'', b_name = ''Toyota'', b_shares = 50, b_price = 1300, b_note = ''''\<rparr>"


definition example_oversell :: SellRequest where
  "example_oversell = \<lparr>s_code = ''7203'', s_shares = 101, s_price = 1200\<rparr>"

definition example_snapshot :: snapshot where
  "example_snapshot =
     \<lparr>s_technical = Some \<lparr>rsi = Some (Fin 20), sma50 = Some 90, sma200 = Some 100,
                           golden_cross = Some False, death_cross = Some True\<rparr>,
      s_fundamentals = Some \<lparr>roe = Some (- 0.05), operating_margin = Some 0.1,
                              revenue_growth = Some (- 0.2)\<rparr>,
      s_price = None\<rparr>"

definition example_snapshot_converging :: snapshot where
  "example_snapshot_converging =
     \<lparr>s_technical = Some \<lparr>rsi = Some (Fin 20), sma50 = Some 98, sma200 = Some 100,
                           golden_cross = Some False, death_cross = Some True\<rparr>,
      s_fundamentals = Some \<lparr>roe = Some (- 0.05), operating_margin = Some (- 0.1),
                              revenue_growth = None\<rparr>,
      s_price = Some \<lparr>current = Some 95, high_52w = None, low_52w = None\<rparr>\<rparr>"

definition example_snapshot_no_cross :: snapshot where
  "example_snapshot_no_cross =
     \<lparr>s_technical = Some \<lparr>rsi = Some (Fin 20), sma50 = Some 90, sma200 = Some 100,
                           golden_cross = None, death_cross = None\<rparr>,
      s_fundamentals = Some \<lparr>roe = Some (- 0.05), operating_margin = Some 0.1,
                              revenue_growth = Some (- 0.2)\<rparr>,
      s_price = None\<rparr>"

definition example_rising_14 :: "real list" where
  "example_rising_14 = [1, 2, 3, 4, 5, 6, 7, 8, 9, 10, 11, 12, 13, 14]"

definition example_rising_20 :: "real list" where
  "example_rising_20 =
     [101, 102, 103, 104, 105, 106, 107, 108, 109, 110,
      111, 112, 113, 114, 115, 116, 117, 118, 119, 120]"

definition example_two_weeks :: "real list" where
  "example_two_weeks =
     [100, 102, 101, 103, 104, 103, 105, 106, 107, 106, 108, 109, 110, 111]"

definition example_manifest :: manifest where
  "example_manifest =
     \<lparr>stocks = [\<lparr>m_code = Some ''7203'', m_name = ''Toyota''\<rparr>,
                 \<lparr>m_code = Some ''6758'', m_name = ''Sony''\<rparr>]\<rparr>"

definition example_report_store :: store where
  "example_report_store =
     \<lparr>watchlist_doc = None, portfolio_doc = None, manifest_doc = Some example_manifest,
      reports = {''webapp/data/stocks/7203.json'', ''webapp/data/stocks/6758.json''}\<rparr>"

definition example_env_put_fails :: env where
  "example_env_put_fails =
     \<lparr>get_fails = (\<lambda>p. False), put_fails = (\<lambda>p. True),
      delete_fails = (\<lambda>p. False),
      today = ''2025-01-10'', now = ''2025-01-10T09:00:00'', YFINANCE_AVAILABLE = True,
      ticker_info = (\<lambda>c. None)\<rparr>"

definition example_env_market :: env where
  "example_env_market =
     \<lparr>get_fails = (\<lambda>p. False), put_fails = (\<lambda>p. False), delete_fails = (\<lambda>p. False),
      today = ''2025-01-10'', now = ''2025-01-10T09:00:00'', YFINANCE_AVAILABLE = True,
      ticker_info = (\<lambda>c. Some \<lparr>forwardPE = Some 15.27, trailingPE = None\<rparr>)\<rparr>"

definition example_watch_entry :: watch_entry where
  "example_watch_entry =
     \<lparr>w_code = ''6758'', w_name = ''Sony'', w_added_date = ''2025-01-05'', w_note = '''',
      w_kabumart_rank = ''A'', w_status = Some ''watching'', w_per = Some 14,
      w_per_history = [], w_updated_at = None\<rparr>"

definition example_add :: WatchlistAddRequest where
  "example_add =
     \<lparr>a_code = ''7203'', a_name = ''Toyota'', a_note = '''', a_kabumart_rank = ''S'',
      a_per = None\<rparr>"

definition example_added_entry :: watch_entry where
  "example_added_entry =
     \<lparr>w_code = ''7203'', w_name = ''Toyota'', w_added_date = ''2025-01-10'', w_note = '''',
      w_kabumart_rank = ''S'', w_status = Some ''archived'', w_per = None,
      w_per_history = [], w_updated_at = None\<rparr>"

definition example_watch_store :: store where
  "example_watch_store =
     \<lparr>watchlist_doc = Some \<lparr>watchlist = [example_watch_entry]\<rparr>,
      portfolio_doc = None, manifest_doc = None, reports = {}\<rparr>"

definition example_watch_store_added :: store where
  "example_watch_store_added =
     \<lparr>watchlist_doc = Some \<lparr>watchlist = [example_watch_entry, example_added_entry]\<rparr>,
      portfolio_doc = None, manifest_doc = None, reports = {}\<rparr>"

section \<open>The store operations when nothing fails\<close>


lemma fetch_ok: "\<not> get_fails e p \<Longrightarrow> github_fetch_json e p (Some d) = Inr d"
  by (simp add: github_fetch_json_def)

section \<open>The rebuild loop refines the reconstruction of the specification\<close>
















section \<open>The average cost after a buy\<close>





section \<open>Holdings keep a positive number of shares\<close>







section \<open>A sell of more shares than are held\<close>

text \<open>
  C8. A sell of more shares than the holding has is answered with status 400, and the
  store is the one before the request: nothing was written, the stored trade history and
  holdings are unchanged.
\<close>

theorem sell_exceeding_holding_rejected:
  assumes "portfolio_doc s = Some data" and "\<not> get_fails e GH_PORTFOLIO_PATH"
    and "find (\<lambda>h. h_code h = s_code req) (holdings data) = Some existing"
    and "h_shares existing < s_shares req"
  shows "sell_stock e s req = (Inl (HTTPException 400 (SellExceedsHeld (h_shares existing))), s)
         \<and> portfolio_doc (snd (sell_stock e s req)) = Some data"
  using assms by (simp add: sell_stock_def fetch_ok)

theorem sell_exceeding_holding_rejected_witness:
  "portfolio_doc example_store_held = Some example_portfolio
   \<and> \<not> get_fails example_env GH_PORTFOLIO_PATH
   \<and> find (\<lambda>h. h_code h = s_code example_oversell) (holdings example_portfolio)
       = Some example_holding
   \<and> h_shares example_holding < s_shares example_oversell
   \<and> sell_stock example_env example_store_held example_oversell =
        (Inl (HTTPException 400 (SellExceedsHeld 100)), example_store_held)
   \<and> portfolio_doc (snd (sell_stock example_env example_store_held example_oversell))
       = Some example_portfolio"
proof -
  have a: "portfolio_doc example_store_held = Some example_portfolio"
    and b: "\<not> get_fails example_env GH_PORTFOLIO_PATH"
    and c: "find (\<lambda>h. h_code h = s_code example_oversell) (holdings example_portfolio)
             = Some example_holding"
    and d: "h_shares example_holding < s_shares example_oversell"
    by (simp_all add: example_store_held_def example_env_def example_portfolio_def
        example_holding_def example_oversell_def)
  have h: "h_shares example_holding = 100"
    by (simp add: example_holding_def)
  from sell_exceeding_holding_rejected[OF a b c d] a b c d show ?thesis
    unfolding h by simp
qed

section \<open>The classifier: priority and missing inputs\<close>

text \<open>
  C2. When the death cross is true and at least two of \<open>roe < 0\<close>,
  \<open>revenue_growth < -0.10\<close> and \<open>operating_margin < 0\<close> hold, the classifier returns
  \<open>red\<close>, whatever the other fields are: the conditions of orange and yellow are not
  looked at once the condition of red holds.
\<close>

theorem red_wins_over_lower_levels:
  assumes tech: "s_technical data = Some t" and dc: "death_cross t = Some True"
    and fund: "s_fundamentals data = Some f"
    and two: "(\<exists>a b. roe f = Some a \<and> a < 0 \<and> revenue_growth f = Some b \<and> b < - 0.10)
            \<or> (\<exists>a c. roe f = Some a \<and> a < 0 \<and> operating_margin f = Some c \<and> c < 0)
            \<or> (\<exists>b c. revenue_growth f = Some b \<and> b < - 0.10
                     \<and> operating_margin f = Some c \<and> c < 0)"
  shows "health_alert data = ''red''"
proof -
  from fund two have "2 \<le> fund_bad data"
    by (auto simp: fund_bad_def dict_get_def Let_def)
  with tech dc show ?thesis
    by (simp add: health_alert_def dict_get_def Let_def)
qed

theorem red_wins_over_lower_levels_witness:
  "s_technical example_snapshot = Some \<lparr>rsi = Some (Fin 20), sma50 = Some 90, sma200 = Some 100,
                           golden_cross = Some False, death_cross = Some True\<rparr>
   \<and> s_fundamentals example_snapshot = Some \<lparr>roe = Some (- 0.05), operating_margin = Some 0.1,
                              revenue_growth = Some (- 0.2)\<rparr>
   \<and> - 0.05 < (0 :: real) \<and> - 0.2 < (- 0.10 :: real)
   \<and> health_alert example_snapshot = ''red''
   \<and> health_alert example_snapshot_converging = ''red''"
proof -
  let ?t = "\<lparr>rsi = Some (Fin 20), sma50 = Some 90, sma200 = Some 100,
             golden_cross = Some False, death_cross = Some True\<rparr>"
  let ?f = "\<lparr>roe = Some (- 0.05), operating_margin = Some 0.1,
             revenue_growth = Some (- 0.2)\<rparr>"
  let ?t2 = "\<lparr>rsi = Some (Fin 20), sma50 = Some 98, sma200 = Some 100,
             golden_cross = Some False, death_cross = Some True\<rparr>"
  let ?f2 = "\<lparr>roe = Some (- 0.05), operating_margin = Some (- 0.1),
             revenue_growth = None\<rparr>"
  have 1: "s_technical example_snapshot = Some ?t" "death_cross ?t = Some True"
    "s_fundamentals example_snapshot = Some ?f"
    by (simp_all add: example_snapshot_def)
  have 2: "(\<exists>a b. roe ?f = Some a \<and> a < 0 \<and> revenue_growth ?f = Some b \<and> b < - 0.10)
            \<or> (\<exists>a c. roe ?f = Some a \<and> a < 0 \<and> operating_margin ?f = Some c \<and> c < 0)
            \<or> (\<exists>b c. revenue_growth ?f = Some b \<and> b < - 0.10
                     \<and> operating_margin ?f = Some c \<and> c < 0)"
    by simp
  have 3: "s_technical example_snapshot_converging = Some ?t2" "death_cross ?t2 = Some True"
    "s_fundamentals example_snapshot_converging = Some ?f2"
    by (simp_all add: example_snapshot_converging_def)
  have 4: "(\<exists>a b. roe ?f2 = Some a \<and> a < 0 \<and> revenue_growth ?f2 = Some b \<and> b < - 0.10)
            \<or> (\<exists>a c. roe ?f2 = Some a \<and> a < 0 \<and> operating_margin ?f2 = Some c \<and> c < 0)
            \<or> (\<exists>b c. revenue_growth ?f2 = Some b \<and> b < - 0.10
                     \<and> operating_margin ?f2 = Some c \<and> c < 0)"
    by simp
  from red_wins_over_lower_levels[OF 1 2] red_wins_over_lower_levels[OF 3 4] 1
  show ?thesis by simp
qed

lemma bad_mono:
  "missing_or_same v' v \<Longrightarrow>
   (of_bool (v' \<noteq> None \<and> the v' < c) :: nat) \<le> of_bool (v \<noteq> None \<and> the v < (c :: real))"
  by (auto simp: missing_or_same_def)

lemma fund_bad_mono:
  assumes "fields_removed d' d"
  shows "fund_bad d' \<le> fund_bad d"
proof -
  from assms have
    a: "missing_or_same (dict_get (s_fundamentals d') roe) (dict_get (s_fundamentals d) roe)"
    and b: "missing_or_same (dict_get (s_fundamentals d') revenue_growth)
              (dict_get (s_fundamentals d) revenue_growth)"
    and c: "missing_or_same (dict_get (s_fundamentals d') operating_margin)
              (dict_get (s_fundamentals d) operating_margin)"
    by (simp_all add: fields_removed_def)
  from bad_mono[OF a, of 0] bad_mono[OF b, of "- 0.1"] bad_mono[OF c, of 0]
  show ?thesis
    unfolding fund_bad_def Let_def by (simp only: list.map sum_list.Cons sum_list.Nil)
qed

lemma truthy_mono: "missing_or_same v' v \<Longrightarrow> truthy v' \<Longrightarrow> v = v'"
  by (auto simp: missing_or_same_def truthy_def)

lemma sma_gap_mono:
  assumes r: "fields_removed d' d" and g: "sma_gap_pct d' \<noteq> None"
  shows "sma_gap_pct d = sma_gap_pct d'"
proof -
  from r have
    a: "missing_or_same (dict_get (s_technical d') sma50) (dict_get (s_technical d) sma50)"
    and b: "missing_or_same (dict_get (s_technical d') sma200) (dict_get (s_technical d) sma200)"
    by (simp_all add: fields_removed_def)
  from g have t: "truthy (dict_get (s_technical d') sma50)" "truthy (dict_get (s_technical d') sma200)"
    by (simp_all add: sma_gap_pct_def Let_def split: if_splits)
  from truthy_mono[OF a t(1)] truthy_mono[OF b t(2)] show ?thesis
    by (simp add: sma_gap_pct_def)
qed

lemma health_alert_conds:
  "health_alert d = (if red_cond d then ''red'' else if orange_cond d then ''orange''
                     else if yellow_cond d then ''yellow'' else ''green'')"
  by (simp add: health_alert_def red_cond_def orange_cond_def yellow_cond_def Let_def)

lemma red_mono:
  assumes r: "fields_removed d' d" and c: "red_cond d'"
  shows "red_cond d"
proof -
  from r have "missing_or_same (dict_get (s_technical d') death_cross)
                 (dict_get (s_technical d) death_cross)"
    by (simp add: fields_removed_def)
  with c have "dict_get (s_technical d) death_cross = Some True"
    by (simp add: red_cond_def missing_or_same_def)
  with c fund_bad_mono[OF r] show ?thesis
    by (simp add: red_cond_def)
qed

lemma orange_mono:
  assumes r: "fields_removed d' d" and c: "orange_cond d'"
  shows "orange_cond d"
proof -
  from c have "sma_gap_pct d' \<noteq> None" by (simp add: orange_cond_def)
  from sma_gap_mono[OF r this] c fund_bad_mono[OF r] show ?thesis
    by (simp add: orange_cond_def)
qed

lemma yellow_mono:
  assumes r: "fields_removed d' d" and y: "yellow_cond d'"
  shows "yellow_cond d"
proof -
  from r have
    a: "missing_or_same (dict_get (s_technical d') rsi) (dict_get (s_technical d) rsi)"
    and b: "missing_or_same (dict_get (s_technical d') sma50) (dict_get (s_technical d) sma50)"
    and c: "missing_or_same (dict_get (s_price d') current) (dict_get (s_price d) current)"
    by (simp_all add: fields_removed_def)
  from y consider
    (rsi) "dict_get (s_technical d') rsi \<noteq> None" "fl_le (the (dict_get (s_technical d') rsi)) 30"
    | (sma) "truthy (dict_get (s_technical d') sma50)" "truthy (dict_get (s_price d') current)"
        "the (dict_get (s_price d') current) < the (dict_get (s_technical d') sma50)"
    unfolding yellow_cond_def by blast
  then show ?thesis
  proof cases
    case rsi
    with a have "dict_get (s_technical d) rsi = dict_get (s_technical d') rsi"
      by (simp add: missing_or_same_def)
    with rsi show ?thesis unfolding yellow_cond_def by simp
  next
    case sma
    from truthy_mono[OF b sma(1)] truthy_mono[OF c sma(2)] sma
    show ?thesis unfolding yellow_cond_def by simp
  qed
qed

lemma removal_never_raises:
  assumes r: "fields_removed d' d"
  shows "severity (health_alert d') \<le> severity (health_alert d)"
proof -
  have sev: "severity ''red'' = 3" "severity ''orange'' = 2" "severity ''yellow'' = 1"
    "severity ''green'' = 0"
    by (simp_all add: severity_def)
  show ?thesis
  proof (cases "red_cond d'")
    case True
    with red_mono[OF r] show ?thesis by (simp add: health_alert_conds)
  next
    case nr: False
    show ?thesis
    proof (cases "orange_cond d'")
      case True
      with nr orange_mono[OF r] show ?thesis by (simp add: health_alert_conds sev)
    next
      case no: False
      show ?thesis
      proof (cases "yellow_cond d'")
        case True
        with nr no yellow_mono[OF r] show ?thesis by (simp add: health_alert_conds sev)
      next
        case False
        with nr no show ?thesis by (simp add: health_alert_conds sev)
      qed
    qed
  qed
qed

text \<open>
  C4. With every input missing, be it the dictionaries or the fields in them, the
  classifier returns \<open>green\<close>. A missing field never counts as a match: when fields of a
  snapshot are replaced by missing ones, the level of the result is never more severe
  than before.
\<close>

theorem missing_input_is_condition_not_met:
  "health_alert \<lparr>s_technical = None, s_fundamentals = None, s_price = None\<rparr> = ''green''
   \<and> health_alert
        \<lparr>s_technical = Some \<lparr>rsi = None, sma50 = None, sma200 = None,
                              golden_cross = gc, death_cross = None\<rparr>,
         s_fundamentals = Some \<lparr>roe = None, operating_margin = None, revenue_growth = None\<rparr>,
         s_price = Some \<lparr>current = None, high_52w = hi, low_52w = lo\<rparr>\<rparr> = ''green''
   \<and> (fields_removed data' data \<longrightarrow> severity (health_alert data') \<le> severity (health_alert data))"
proof (intro conjI impI)
  show "health_alert \<lparr>s_technical = None, s_fundamentals = None, s_price = None\<rparr> = ''green''"
    by (simp add: health_alert_def fund_bad_def sma_gap_pct_def dict_get_def truthy_def)
  show "health_alert
        \<lparr>s_technical = Some \<lparr>rsi = None, sma50 = None, sma200 = None,
                              golden_cross = gc, death_cross = None\<rparr>,
         s_fundamentals = Some \<lparr>roe = None, operating_margin = None, revenue_growth = None\<rparr>,
         s_price = Some \<lparr>current = None, high_52w = hi, low_52w = lo\<rparr>\<rparr> = ''green''"
    by (simp add: health_alert_def fund_bad_def sma_gap_pct_def dict_get_def truthy_def)
  assume "fields_removed data' data"
  then show "severity (health_alert data') \<le> severity (health_alert data)"
    by (rule removal_never_raises)
qed

theorem missing_input_is_condition_not_met_witness:
  "fields_removed example_snapshot_no_cross example_snapshot
   \<and> health_alert example_snapshot = ''red''
   \<and> health_alert example_snapshot_no_cross = ''yellow''
   \<and> severity (health_alert example_snapshot_no_cross) \<le> severity (health_alert example_snapshot)"
proof -
  have r: "fields_removed example_snapshot_no_cross example_snapshot"
    by (simp add: fields_removed_def missing_or_same_def dict_get_def
        example_snapshot_no_cross_def example_snapshot_def)
  have a: "health_alert example_snapshot = ''red''"
    by (simp add: health_alert_def fund_bad_def sma_gap_pct_def dict_get_def truthy_def
        example_snapshot_def)
  have b: "health_alert example_snapshot_no_cross = ''yellow''"
    by (simp add: health_alert_def fund_bad_def sma_gap_pct_def dict_get_def truthy_def
        example_snapshot_no_cross_def)
  from missing_input_is_condition_not_met[where data' = example_snapshot_no_cross
      and data = example_snapshot]
    r a b
  show ?thesis by blast
qed

section \<open>The relative strength index at the latest day\<close>

lemma length_diff: "length (diff closes) = length closes"
  by (cases closes) simp_all

lemma length_rolling_mean: "length (rolling_mean w xs) = length xs"
  by (simp add: rolling_mean_def)

lemma last_rolling_mean: "xs \<noteq> [] \<Longrightarrow> last (rolling_mean w xs) = window_mean w xs"
proof -
  assume ne: "xs \<noteq> []"
  then have "[0..<length xs] = [0..<length xs - 1] @ [length xs - 1]"
    by (cases "length xs") simp_all
  then have "last (rolling_mean w xs) = window_mean w (take (Suc (length xs - 1)) xs)"
    unfolding rolling_mean_def by (metis (no_types, lifting) last_map last_snoc snoc_eq_iff_butlast)
  with ne show ?thesis by simp
qed

lemma get_full_data_rsi_last:
  assumes "14 \<le> length closes"
  shows "get_full_data_rsi closes =
    Some (fl_round (rsi_of_rs
      (fl_div (window_mean 14 (map (clip_lower 0) (diff closes)))
              (window_mean 14 (map (\<lambda>d. fl_neg (clip_upper 0 d)) (diff closes))))) 1)"
proof -
  let ?delta = "diff closes"
  let ?gain = "rolling_mean 14 (map (clip_lower 0) ?delta)"
  let ?loss = "rolling_mean 14 (map (\<lambda>d. fl_neg (clip_upper 0 d)) ?delta)"
  from assms have ne: "closes \<noteq> []" by auto
  then have dne: "?delta \<noteq> []" using length_diff[of closes] by auto
  have lg: "length ?gain = length closes" and ll: "length ?loss = length closes"
    by (simp_all add: length_rolling_mean length_diff)
  from ne lg ll have gne: "?gain \<noteq> []" and lne: "?loss \<noteq> []" by auto
  have z: "zip ?gain ?loss \<noteq> []" using gne lne by (cases ?gain; cases ?loss) simp_all
  have lz: "last (zip ?gain ?loss) = (last ?gain, last ?loss)"
    using gne lne lg ll by (simp add: last_zip)
  have lgv: "last ?gain = window_mean 14 (map (clip_lower 0) ?delta)"
    using dne by (simp add: last_rolling_mean)
  have llv: "last ?loss = window_mean 14 (map (\<lambda>d. fl_neg (clip_upper 0 d)) ?delta)"
    using dne by (simp add: last_rolling_mean)
  have "get_full_data_rsi closes =
      Some (fl_round (last (map rsi_of_rs (map (\<lambda>(g, l). fl_div g l) (zip ?gain ?loss)))) 1)"
    using assms ne z unfolding get_full_data_rsi_def Let_def rsi_of_rs_def by simp
  also have "last (map rsi_of_rs (map (\<lambda>(g, l). fl_div g l) (zip ?gain ?loss)))
      = rsi_of_rs (fl_div (last ?gain) (last ?loss))"
    using z by (simp add: last_map lz)
  finally show ?thesis unfolding lgv llv .
qed

lemma rsi_too_few_points: "length closes < 14 \<Longrightarrow> get_full_data_rsi closes = None"
  by (simp add: get_full_data_rsi_def)

lemma window_mean_first_NaN:
  "length xs = w \<Longrightarrow> xs \<noteq> [] \<Longrightarrow> hd xs = NaN \<Longrightarrow> window_mean w xs = NaN"
  by (cases xs) (auto simp: window_mean_def)

lemma rsi_14_points_NaN:
  assumes "length closes = 14"
  shows "get_full_data_rsi closes = Some NaN"
proof -
  from assms obtain c cs where c: "closes = c # cs" by (cases closes) auto
  have "window_mean 14 (map (clip_lower 0) (diff closes)) = NaN"
    using assms c by (intro window_mean_first_NaN) (simp_all add: length_diff)
  with get_full_data_rsi_last[of closes] assms show ?thesis
    by (simp add: rsi_of_rs_def fl_sub_def)
qed

lemma consecutive_increasing:
  "sorted_wrt (<) (x # xs) \<Longrightarrow> \<forall>(a, b) \<in> set (zip (x # xs) xs). a < (b :: real)"
  by (induction xs arbitrary: x) auto

lemma diff_tail_positive:
  assumes "sorted_wrt (<) closes"
  shows "\<forall>d \<in> set (tl (diff closes)). \<exists>v. d = Fin v \<and> 0 < v"
proof (cases closes)
  case Nil
  then show ?thesis by simp
next
  case (Cons x xs)
  with assms consecutive_increasing[of x xs] show ?thesis by auto
qed

lemma set_drop_tl: "0 < k \<Longrightarrow> set (drop k xs) \<subseteq> set (tl xs)"
  by (cases xs; cases k) (auto dest: in_set_dropD)

lemma sum_list_pos: "xs \<noteq> [] \<Longrightarrow> \<forall>x \<in> set xs. 0 < (x :: real) \<Longrightarrow> 0 < sum_list xs"
  by (induction xs) (auto intro: add_pos_nonneg sum_list_nonneg less_imp_le)

lemma sum_list_zero: "\<forall>x \<in> set xs. x = (0 :: real) \<Longrightarrow> sum_list xs = 0"
  by (induction xs) auto

lemma rsi_rising:
  assumes inc: "sorted_wrt (<) closes" and len: "15 \<le> length closes"
  shows "get_full_data_rsi closes = Some (Fin 100)"
proof -
  let ?delta = "diff closes"
  let ?k = "length closes - 14"
  let ?win = "drop ?k ?delta"
  from len have k: "0 < ?k" by simp
  have lw: "length ?win = 14" using len by (simp add: length_diff)
  have pos: "\<forall>d \<in> set ?win. \<exists>v. d = Fin v \<and> 0 < v"
    using set_drop_tl[OF k, of ?delta] diff_tail_positive[OF inc] by blast
  have gw: "drop (length (map (clip_lower 0) ?delta) - 14) (map (clip_lower 0) ?delta)
              = map (clip_lower 0) ?win"
    by (simp add: drop_map length_diff)
  have lo: "drop (length (map (\<lambda>d. fl_neg (clip_upper 0 d)) ?delta) - 14)
               (map (\<lambda>d. fl_neg (clip_upper 0 d)) ?delta)
              = map (\<lambda>d. fl_neg (clip_upper 0 d)) ?win"
    by (simp add: drop_map length_diff)
  have g_fin: "list_all is_Fin (map (clip_lower 0) ?win)"
    using pos by (auto simp: list_all_iff)
  have l_fin: "list_all is_Fin (map (\<lambda>d. fl_neg (clip_upper 0 d)) ?win)"
    using pos by (auto simp: list_all_iff)
  have "\<forall>x \<in> set (map fin_value (map (clip_lower 0) ?win)). 0 < x"
    using pos by auto
  moreover have "map fin_value (map (clip_lower 0) ?win) \<noteq> []"
    using lw by auto
  ultimately have gs: "0 < sum_list (map fin_value (map (clip_lower 0) ?win))"
    by (rule sum_list_pos[rotated])
  have "\<forall>x \<in> set (map fin_value (map (\<lambda>d. fl_neg (clip_upper 0 d)) ?win)). x = 0"
    using pos by auto
  then have ls: "sum_list (map fin_value (map (\<lambda>d. fl_neg (clip_upper 0 d)) ?win)) = 0"
    by (rule sum_list_zero)
  have gm: "window_mean 14 (map (clip_lower 0) ?delta)
              = Fin (sum_list (map fin_value (map (clip_lower 0) ?win)) / 14)"
    unfolding window_mean_def gw Let_def using g_fin len by (simp add: length_diff)
  have lm: "window_mean 14 (map (\<lambda>d. fl_neg (clip_upper 0 d)) ?delta) = Fin 0"
    unfolding window_mean_def lo Let_def using l_fin len ls by (simp add: length_diff)
  have r100: "py_round 100 (Suc 0) = 100"
    by (simp add: py_round_def round_half_even_def)
  from len have "14 \<le> length closes" by simp
  from get_full_data_rsi_last[OF this] gs show ?thesis
    unfolding gm lm by (simp add: rsi_of_rs_def fl_sub_def r100)
qed

lemma rsi_of_rs_infinite: "rsi_of_rs PInf = Fin 100 \<and> rsi_of_rs NInf = Fin 100"
  by (simp add: rsi_of_rs_def fl_sub_def)

text \<open>
  C5, as amended. For a strictly increasing series of at least 15 closing prices, so
  that 14 day-over-day differences stand in the window of the latest day and all of them
  are gains, the average loss is 0 and the computed RSI is 100: the division by zero gives
  an infinity and no error. (With an average loss of negative zero the infinity is the
  negative one, and the RSI is 100 all the same.)
\<close>

theorem rsi_of_rising_series_is_100:
  assumes "sorted_wrt (<) closes" and "15 \<le> length closes"
  shows "get_full_data_rsi closes = Some (Fin 100)"
  using assms by (rule rsi_rising)

theorem rsi_of_rising_series_is_100_witness:
  "sorted_wrt (<) example_rising_20 \<and> 15 \<le> length example_rising_20
   \<and> get_full_data_rsi example_rising_20 = Some (Fin 100)"
proof -
  have a: "sorted_wrt (<) example_rising_20" and b: "15 \<le> length example_rising_20"
    by (simp_all add: example_rising_20_def)
  from rsi_of_rising_series_is_100[OF a b] a b show ?thesis by simp
qed

text \<open>
  C5 as stated fails for a strictly increasing series of exactly 14 prices: only 13
  differences exist, the window of 14 is not full, and the result is not 100.
\<close>

theorem rsi_of_rising_14_points_counterexample:
  "sorted_wrt (<) example_rising_14 \<and> 14 \<le> length example_rising_14
   \<and> get_full_data_rsi example_rising_14 \<noteq> Some (Fin 100)"
proof -
  have a: "sorted_wrt (<) example_rising_14" and b: "length example_rising_14 = 14"
    by (simp_all add: example_rising_14_def)
  from rsi_14_points_NaN[OF b] a b show ?thesis by simp
qed

text \<open>
  C6. With 13 prices of the example the RSI is \<open>None\<close>. With the 14 prices the guard of
  \<open>get_full_data\<close> lets the computation run, the window of the latest day holds the NaN
  that \<open>diff\<close> puts first, and the RSI is the float NaN, which is not \<open>None\<close>.
\<close>

theorem rsi_of_14_points_is_NaN_not_None:
  "length example_two_weeks = 14
   \<and> get_full_data_rsi example_two_weeks = Some NaN
   \<and> get_full_data_rsi example_two_weeks \<noteq> None
   \<and> get_full_data_rsi (take 13 example_two_weeks) = None"
proof -
  have b: "length example_two_weeks = 14" and c: "length (take 13 example_two_weeks) < 14"
    by (simp_all add: example_two_weeks_def)
  from rsi_14_points_NaN[OF b] rsi_too_few_points[OF c] b show ?thesis by simp
qed

section \<open>Failure and persistence\<close>

lemma upper_7203: "upper ''7203'' = ''7203''"
  by (simp add: upper_def upper_char_def)

lemma report_path_7203: "report_path ''7203'' = ''webapp/data/stocks/7203.json''"
  by (simp add: report_path_def GH_STOCKS_DIR_def upper_7203)

text \<open>
  C9 as stated fails for the delete-report use-case: when the analysis document has been
  deleted and the write of the manifest fails, the use-case answers 500, the analysis
  document is gone and the manifest still lists it.
\<close>

theorem delete_report_partial_persistence_counterexample:
  "fst (delete_report example_env_put_fails example_report_store ''7203'')
     = Inl (HTTPException 500 (ManifestUpdateFailed RuntimeError))
   \<and> snd (delete_report example_env_put_fails example_report_store ''7203'')
       \<noteq> example_report_store
   \<and> reports (snd (delete_report example_env_put_fails example_report_store ''7203''))
       = {''webapp/data/stocks/6758.json''}
   \<and> manifest_doc (snd (delete_report example_env_put_fails example_report_store ''7203''))
       = Some example_manifest"
proof -
  have "delete_report example_env_put_fails example_report_store ''7203''
          = (Inl (HTTPException 500 (ManifestUpdateFailed RuntimeError)),
             example_report_store\<lparr>reports := {''webapp/data/stocks/6758.json''}\<rparr>)"
    by (simp add: delete_report_def report_path_7203 github_delete_file_def
        github_fetch_json_def github_update_json_def example_env_put_fails_def
        example_report_store_def Let_def insert_Diff_if)
  moreover have "example_report_store\<lparr>reports := {''webapp/data/stocks/6758.json''}\<rparr>
                   \<noteq> example_report_store"
  proof
    assume "example_report_store\<lparr>reports := {''webapp/data/stocks/6758.json''}\<rparr>
              = example_report_store"
    then have "reports (example_report_store\<lparr>reports := {''webapp/data/stocks/6758.json''}\<rparr>)
                 = reports example_report_store"
      by simp
    then show False by (simp add: example_report_store_def)
  qed
  ultimately show ?thesis by (simp add: example_report_store_def)
qed

lemma put_portfolio_abort:
  "fst (put_portfolio e s data resp) = Inl err \<Longrightarrow> snd (put_portfolio e s data resp) = s"
  by (auto simp: put_portfolio_def split: sum.splits)

lemma put_watchlist_abort:
  "fst (put_watchlist e s data resp) = Inl err \<Longrightarrow> snd (put_watchlist e s data resp) = s"
  by (auto simp: put_watchlist_def split: sum.splits)

lemma append_entry_abort:
  "fst (append_entry e s req data) = Inl err \<Longrightarrow> snd (append_entry e s req data) = s"
  by (auto simp: append_entry_def Let_def dest: put_watchlist_abort split: if_splits)

lemma add_watchlist_abort:
  "fst (add_watchlist e s req) = Inl err \<Longrightarrow> snd (add_watchlist e s req) = s"
  by (auto simp: add_watchlist_def dest: append_entry_abort split: sum.splits if_splits)

lemma delete_watchlist_abort:
  "fst (delete_watchlist e s code) = Inl err \<Longrightarrow> snd (delete_watchlist e s code) = s"
  by (auto simp: delete_watchlist_def Let_def dest: put_watchlist_abort
      split: sum.splits if_splits)

lemma update_watchlist_status_abort:
  "fst (update_watchlist_status e s req) = Inl err \<Longrightarrow>
   snd (update_watchlist_status e s req) = s"
  by (auto simp: update_watchlist_status_def dest: put_watchlist_abort
      split: sum.splits option.splits if_splits)

lemma update_watchlist_per_abort:
  "fst (update_watchlist_per e s) = Inl err \<Longrightarrow> snd (update_watchlist_per e s) = s"
  by (auto simp: update_watchlist_per_def split: sum.splits prod.splits if_splits)

lemma record_buy_abort:
  "fst (record_buy e s req data) = Inl err \<Longrightarrow> snd (record_buy e s req data) = s"
  by (auto simp: record_buy_def Let_def dest: put_portfolio_abort
      split: option.splits if_splits)

lemma buy_stock_abort:
  "fst (buy_stock e s req) = Inl err \<Longrightarrow> snd (buy_stock e s req) = s"
  by (auto simp: buy_stock_def dest: record_buy_abort split: sum.splits if_splits)

lemma record_sell_abort:
  "fst (record_sell e s req data existing) = Inl err \<Longrightarrow>
   snd (record_sell e s req data existing) = s"
  by (auto simp: record_sell_def Let_def dest: put_portfolio_abort)

lemma sell_stock_abort:
  "fst (sell_stock e s req) = Inl err \<Longrightarrow> snd (sell_stock e s req) = s"
  by (auto simp: sell_stock_def dest: record_sell_abort
      split: sum.splits option.splits if_splits)

lemma reset_portfolio_abort:
  "fst (reset_portfolio e s) = Inl err \<Longrightarrow> snd (reset_portfolio e s) = s"
  by (auto simp: reset_portfolio_def dest: put_portfolio_abort)

lemma delete_holding_abort:
  "fst (delete_holding e s code) = Inl err \<Longrightarrow> snd (delete_holding e s code) = s"
  by (auto simp: delete_holding_def Let_def dest: put_portfolio_abort
      split: sum.splits option.splits if_splits)

lemma delete_trade_abort:
  "fst (delete_trade e s index) = Inl err \<Longrightarrow> snd (delete_trade e s index) = s"
  by (auto simp: delete_trade_def Let_def dest: put_portfolio_abort
      split: sum.splits if_splits)

lemma delete_report_abort:
  assumes "fst (delete_report e s code) = Inl err"
  shows "if github_delete_file e (report_path code) (report_path code \<in> reports s) = Inr ()
         then snd (delete_report e s code) = s\<lparr>reports := reports s - {report_path code}\<rparr>
              \<and> (\<exists>ex. err = HTTPException 500 (ManifestUpdateFailed ex))
         else snd (delete_report e s code) = s"
  using assms
  by (auto simp: delete_report_def Let_def split: sum.splits if_splits)

text \<open>
  C9, as amended. A use-case that writes one document leaves the store as it was when it
  fails. The delete-report use-case leaves the store as it was when the deletion of the
  analysis document fails; when the deletion succeeded and the manifest step fails, it
  answers 500, the analysis document stays deleted and the manifest is unchanged.
\<close>

theorem failed_use_case_persistence:
  assumes "fst (handle e s req) = Inl err"
  shows "case req of
           DeleteReport code \<Rightarrow>
             if github_delete_file e (report_path code) (report_path code \<in> reports s) = Inr ()
             then snd (handle e s req) = s\<lparr>reports := reports s - {report_path code}\<rparr>
                  \<and> (\<exists>ex. err = HTTPException 500 (ManifestUpdateFailed ex))
             else snd (handle e s req) = s
         | _ \<Rightarrow> snd (handle e s req) = s"
proof (cases req)
  case (DeleteReport code)
  with assms delete_report_abort[of e s code err] show ?thesis by simp
qed (use assms in \<open>simp_all add: add_watchlist_abort delete_watchlist_abort
      update_watchlist_status_abort update_watchlist_per_abort buy_stock_abort sell_stock_abort
      reset_portfolio_abort delete_holding_abort delete_trade_abort\<close>)

theorem failed_use_case_persistence_witness:
  "fst (handle example_env example_store_held (SellStock example_oversell))
     = Inl (HTTPException 400 (SellExceedsHeld 100))
   \<and> snd (handle example_env example_store_held (SellStock example_oversell)) = example_store_held
   \<and> fst (handle example_env_put_fails example_store_held (BuyStock example_buy))
       = Inl (HTTPException 500 (StoreFailure RuntimeError))
   \<and> snd (handle example_env_put_fails example_store_held (BuyStock example_buy)) = example_store_held
   \<and> fst (handle example_env_put_fails example_report_store (DeleteReport ''7203''))
       = Inl (HTTPException 500 (ManifestUpdateFailed RuntimeError))
   \<and> github_delete_file example_env_put_fails (report_path ''7203'')
         (report_path ''7203'' \<in> reports example_report_store) = Inr ()
   \<and> snd (handle example_env_put_fails example_report_store (DeleteReport ''7203''))
       = example_report_store\<lparr>reports := reports example_report_store - {report_path ''7203''}\<rparr>"
proof -
  have a: "fst (handle example_env example_store_held (SellStock example_oversell))
             = Inl (HTTPException 400 (SellExceedsHeld 100))"
    by (simp add: sell_stock_def github_fetch_json_def example_env_def example_store_held_def
        example_portfolio_def example_holding_def example_oversell_def)
  have b: "fst (handle example_env_put_fails example_store_held (BuyStock example_buy))
             = Inl (HTTPException 500 (StoreFailure RuntimeError))"
    by (simp add: buy_stock_def record_buy_def put_portfolio_def github_fetch_json_def
        github_update_json_def example_env_put_fails_def example_store_held_def
        example_portfolio_def example_holding_def example_buy_def Let_def)
  have d: "github_delete_file example_env_put_fails (report_path ''7203'')
             (report_path ''7203'' \<in> reports example_report_store) = Inr ()"
    by (simp add: github_delete_file_def report_path_7203 example_env_put_fails_def
        example_report_store_def)
  have c: "fst (handle example_env_put_fails example_report_store (DeleteReport ''7203''))
             = Inl (HTTPException 500 (ManifestUpdateFailed RuntimeError))"
    using d
    by (simp add: delete_report_def github_fetch_json_def github_update_json_def
        example_env_put_fails_def example_report_store_def Let_def)
  from failed_use_case_persistence[OF a] failed_use_case_persistence[OF b]
    failed_use_case_persistence[OF c] a b c d
  show ?thesis by simp
qed

section \<open>A new watchlist entry and the bulk PER refresh\<close>

lemma refresh_entry_code:
  "w_code (fst (refresh_entry e info entry)) = w_code entry
   \<and> r_code (snd (refresh_entry e info entry)) = w_code entry"
  by (simp add: refresh_entry_def Let_def)

lemma refresh_entries_skips_archived:
  assumes "\<forall>x \<in> set xs. w_code x = c \<longrightarrow> w_status x = Some ''archived''"
  shows "find (\<lambda>x. w_code x = c) (fst (refresh_entries e xs)) = find (\<lambda>x. w_code x = c) xs
         \<and> c \<notin> r_code ` set (fst (snd (refresh_entries e xs)))
         \<and> c \<notin> e_code ` set (snd (snd (refresh_entries e xs)))"
  using assms
proof (induction xs)
  case Nil
  then show ?case by simp
next
  case (Cons x xs)
  then have ih: "find (\<lambda>x. w_code x = c) (fst (refresh_entries e xs)) = find (\<lambda>x. w_code x = c) xs"
    "c \<notin> r_code ` set (fst (snd (refresh_entries e xs)))"
    "c \<notin> e_code ` set (snd (snd (refresh_entries e xs)))"
    by simp_all
  obtain rest' results errors where r: "refresh_entries e xs = (rest', results, errors)"
    by (cases "refresh_entries e xs") auto
  show ?case
  proof (cases "w_status x = Some ''archived''")
    case True
    with ih r show ?thesis by simp
  next
    case False
    with Cons.prems have ne: "w_code x \<noteq> c" by auto
    show ?thesis
    proof (cases "ticker_info e (w_code x)")
      case None
      with False ne ih r show ?thesis by simp
    next
      case (Some info)
      obtain x' res where re: "refresh_entry e info x = (x', res)"
        by (cases "refresh_entry e info x") auto
      with refresh_entry_code[of e info x] have "w_code x' = w_code x" "r_code res = w_code x"
        by simp_all
      with False ne ih r Some re show ?thesis by auto
    qed
  qed
qed

lemma refresh_entries_covers_others:
  "x \<in> set xs \<Longrightarrow> w_status x \<noteq> Some ''archived'' \<Longrightarrow>
   w_code x \<in> r_code ` set (fst (snd (refresh_entries e xs)))
              \<union> e_code ` set (snd (snd (refresh_entries e xs)))"
proof (induction xs)
  case Nil
  then show ?case by simp
next
  case (Cons y ys)
  obtain rest' results errors where r: "refresh_entries e ys = (rest', results, errors)"
    by (cases "refresh_entries e ys") auto
  show ?case
  proof (cases "x = y")
    case True
    show ?thesis
    proof (cases "ticker_info e (w_code y)")
      case None
      with True Cons.prems r show ?thesis by simp
    next
      case (Some info)
      obtain y' res where re: "refresh_entry e info y = (y', res)"
        by (cases "refresh_entry e info y") auto
      with refresh_entry_code[of e info y] have "r_code res = w_code y" by simp
      with True Cons.prems r Some re show ?thesis by simp
    qed
  next
    case False
    with Cons have "w_code x \<in> r_code ` set results \<union> e_code ` set errors"
      using r by simp
    then show ?thesis using r
      by (auto split: option.splits prod.splits)
  qed
qed

lemma update_watchlist_per_skips_archived:
  assumes doc: "watchlist_doc s = Some data"
    and arch: "\<forall>x \<in> set (watchlist data). w_code x = c \<longrightarrow> w_status x = Some ''archived''"
  shows "(\<exists>data'. watchlist_doc (snd (update_watchlist_per e s)) = Some data'
            \<and> find (\<lambda>x. w_code x = c) (watchlist data')
                = find (\<lambda>x. w_code x = c) (watchlist data))
         \<and> (\<forall>results errors. fst (update_watchlist_per e s) = Inr (PerRefreshed results errors)
               \<longrightarrow> c \<notin> r_code ` set results \<and> c \<notin> e_code ` set errors)"
proof -
  obtain entries results errors
    where r: "refresh_entries e (watchlist data) = (entries, results, errors)"
    by (cases "refresh_entries e (watchlist data)") auto
  from refresh_entries_skips_archived[OF arch, of e] r
  have k: "find (\<lambda>x. w_code x = c) entries = find (\<lambda>x. w_code x = c) (watchlist data)"
    "c \<notin> r_code ` set results" "c \<notin> e_code ` set errors"
    by simp_all
  show ?thesis
  proof (cases "YFINANCE_AVAILABLE e \<and> \<not> get_fails e GH_WATCHLIST_PATH")
    case False
    with doc show ?thesis
      by (auto simp: update_watchlist_per_def github_fetch_json_def)
  next
    case True
    with doc have f: "github_fetch_json e GH_WATCHLIST_PATH (watchlist_doc s) = Inr data"
      by (simp add: fetch_ok)
    show ?thesis
    proof (cases "results \<noteq> [] \<and> github_update_json e GH_WATCHLIST_PATH = Inr ()")
      case True
      with \<open>YFINANCE_AVAILABLE e \<and> \<not> get_fails e GH_WATCHLIST_PATH\<close> f r k show ?thesis
        by (simp add: update_watchlist_per_def)
    next
      case False
      with \<open>YFINANCE_AVAILABLE e \<and> \<not> get_fails e GH_WATCHLIST_PATH\<close> f r k doc show ?thesis
        by (auto simp: update_watchlist_per_def split: sum.splits)
    qed
  qed
qed

lemma find_append_new:
  "\<forall>x \<in> set xs. \<not> P x \<Longrightarrow> P y \<Longrightarrow> find P (xs @ [y]) = Some y"
  by (induction xs) auto

lemma append_entry_ok:
  assumes "append_entry e s req data = (Inr r, s1)"
  shows "\<exists>entry. s1 = s\<lparr>watchlist_doc := Some (data\<lparr>watchlist := watchlist data @ [entry]\<rparr>)\<rparr>
           \<and> w_code entry = a_code req \<and> w_status entry = Some ''archived''
           \<and> (\<forall>x \<in> set (watchlist data). w_code x \<noteq> a_code req)"
  using assms
  by (auto simp: append_entry_def Let_def put_watchlist_def split: if_splits sum.splits)

lemma add_watchlist_ok:
  assumes "add_watchlist e s req = (Inr r, s1)"
  shows "\<exists>old entry. watchlist_doc s1 = Some \<lparr>watchlist = old @ [entry]\<rparr>
           \<and> w_code entry = a_code req \<and> w_status entry = Some ''archived''
           \<and> (\<forall>x \<in> set old. w_code x \<noteq> a_code req)"
proof (cases "github_fetch_json e GH_WATCHLIST_PATH (watchlist_doc s)")
  case (Inl ex)
  with assms have "append_entry e s req \<lparr>watchlist = []\<rparr> = (Inr r, s1)"
    by (auto simp: add_watchlist_def split: if_splits)
  from append_entry_ok[OF this] show ?thesis by auto
next
  case (Inr data)
  with assms have "append_entry e s req data = (Inr r, s1)"
    by (simp add: add_watchlist_def)
  from append_entry_ok[OF this] obtain entry where
    "s1 = s\<lparr>watchlist_doc := Some (data\<lparr>watchlist := watchlist data @ [entry]\<rparr>)\<rparr>"
    "w_code entry = a_code req" "w_status entry = Some ''archived''"
    "\<forall>x \<in> set (watchlist data). w_code x \<noteq> a_code req"
    by blast
  then show ?thesis
    by (intro exI[of _ "watchlist data"] exI[of _ entry]) (cases data, simp)
qed

text \<open>
  C10. An entry that the add-watchlist use-case has created is the last entry of the
  stored watchlist, the only one with its code, and has the status \<open>archived\<close>, whatever
  the request says. A bulk PER refresh run on that store, with any answers of the store
  and of the market data provider, leaves the entry as it is and reports neither a
  result nor an error for its code.
\<close>

theorem added_entry_is_archived_and_skipped:
  assumes "add_watchlist e s req = (Inr r, s1)"
  shows "\<exists>data1 entry. watchlist_doc s1 = Some data1
           \<and> find (\<lambda>x. w_code x = a_code req) (watchlist data1) = Some entry
           \<and> last (watchlist data1) = entry
           \<and> w_status entry = Some ''archived''
           \<and> (\<forall>e'. (\<exists>data2. watchlist_doc (snd (update_watchlist_per e' s1)) = Some data2
                        \<and> find (\<lambda>x. w_code x = a_code req) (watchlist data2) = Some entry)
                  \<and> (\<forall>results errors.
                        fst (update_watchlist_per e' s1) = Inr (PerRefreshed results errors)
                        \<longrightarrow> a_code req \<notin> r_code ` set results
                            \<and> a_code req \<notin> e_code ` set errors))"
proof -
  from add_watchlist_ok[OF assms] obtain old entry where
    d: "watchlist_doc s1 = Some \<lparr>watchlist = old @ [entry]\<rparr>"
    and c: "w_code entry = a_code req" and a: "w_status entry = Some ''archived''"
    and n: "\<forall>x \<in> set old. w_code x \<noteq> a_code req"
    by blast
  let ?data1 = "\<lparr>watchlist = old @ [entry]\<rparr>"
  have f: "find (\<lambda>x. w_code x = a_code req) (watchlist ?data1) = Some entry"
    using n c by (simp add: find_append_new)
  have arch: "\<forall>x \<in> set (watchlist ?data1). w_code x = a_code req \<longrightarrow> w_status x = Some ''archived''"
    using n a by auto
  have p: "(\<exists>data2. watchlist_doc (snd (update_watchlist_per e' s1)) = Some data2
                        \<and> find (\<lambda>x. w_code x = a_code req) (watchlist data2) = Some entry)
                  \<and> (\<forall>results errors.
                        fst (update_watchlist_per e' s1) = Inr (PerRefreshed results errors)
                        \<longrightarrow> a_code req \<notin> r_code ` set results
                            \<and> a_code req \<notin> e_code ` set errors)" for e'
    using update_watchlist_per_skips_archived[OF d arch, of e'] f by simp
  from d f a p show ?thesis
    by (intro exI[of _ ?data1] exI[of _ entry]) simp
qed

theorem added_entry_is_archived_and_skipped_witness:
  "add_watchlist example_env_market example_watch_store example_add
     = (Inr (WatchAdded 2), example_watch_store_added)
   \<and> find (\<lambda>x. w_code x = ''7203'')
         (watchlist (the (watchlist_doc example_watch_store_added))) = Some example_added_entry
   \<and> w_status example_added_entry = Some ''archived''
   \<and> fst (update_watchlist_per example_env_market example_watch_store_added)
       = Inr (PerRefreshed [\<lparr>r_code = ''6758'', r_name = ''Sony'', r_old_per = Some 14,
                              r_new_per = Some 15.3\<rparr>] [])
   \<and> (\<exists>data2. watchlist_doc (snd (update_watchlist_per example_env_market
                                      example_watch_store_added)) = Some data2
         \<and> find (\<lambda>x. w_code x = ''7203'') (watchlist data2) = Some example_added_entry)"
proof -
  have h: "add_watchlist example_env_market example_watch_store example_add
             = (Inr (WatchAdded 2), example_watch_store_added)"
    by (simp add: add_watchlist_def append_entry_def put_watchlist_def github_fetch_json_def
        github_update_json_def example_env_market_def example_watch_store_def
        example_watch_store_added_def example_add_def example_added_entry_def
        example_watch_entry_def Let_def)
  have c: "a_code example_add = ''7203''"
    by (simp add: example_add_def)
  have f: "find (\<lambda>x. w_code x = ''7203'')
             (watchlist (the (watchlist_doc example_watch_store_added))) = Some example_added_entry"
    by (simp add: example_watch_store_added_def example_watch_entry_def example_added_entry_def)
  have u: "fst (update_watchlist_per example_env_market example_watch_store_added)
       = Inr (PerRefreshed [\<lparr>r_code = ''6758'', r_name = ''Sony'', r_old_per = Some 14,
                              r_new_per = Some 15.3\<rparr>] [])"
    by (simp add: update_watchlist_per_def refresh_entry_def github_fetch_json_def
        github_update_json_def example_env_market_def example_watch_store_added_def
        example_added_entry_def example_watch_entry_def py_round_def round_half_even_def Let_def)
  from added_entry_is_archived_and_skipped[OF h] obtain data1 entry where
    d: "watchlist_doc example_watch_store_added = Some data1"
    and e: "find (\<lambda>x. w_code x = a_code example_add) (watchlist data1) = Some entry"
    and a: "w_status entry = Some ''archived''"
    and p: "\<And>e'. \<exists>data2. watchlist_doc (snd (update_watchlist_per e' example_watch_store_added))
                        = Some data2
                 \<and> find (\<lambda>x. w_code x = a_code example_add) (watchlist data2) = Some entry"
    by blast
  from d e f have "entry = example_added_entry"
    unfolding c by simp
  with h f u a p[of example_env_market] show ?thesis
    unfolding c by simp
qed

end
